theory Spec2Isabelle
  imports Complex_Main "HOL-Library.Sublist"
begin

section \<open>JavaScript values\<close>

text \<open>
  A JavaScript number is an IEEE-754 double. The model keeps the three non-finite values
  apart and idealises every finite double as the real number it denotes: rounding of
  arithmetic results, overflow to Infinity and the sign of zero are not modelled. The
  thresholds of the code are compared as the decimal numbers written in the source.
\<close>

datatype jsnum = NaN | NegInf | Fin real | PosInf

text \<open>
  A property read from an object: missing (\<open>undefined\<close>), \<open>null\<close>, or a value. A
  destructuring default (\<open>{ rsi = 50 }\<close>) replaces \<open>undefined\<close> only.
\<close>

datatype 'a field = Undefined | Null | Val 'a

fun orDefault :: "'a field \<Rightarrow> 'a \<Rightarrow> 'a field" where
  "orDefault Undefined d = Val d"
| "orDefault Null d = Null"
| "orDefault (Val x) d = Val x"

text \<open>\<open>ToNumber\<close> on the values that reach an arithmetic or relational operator.\<close>

fun toNumber :: "jsnum field \<Rightarrow> jsnum" where
  "toNumber Undefined = NaN"
| "toNumber Null = Fin 0"
| "toNumber (Val n) = n"

text \<open>The relational operators: every comparison with NaN is false.\<close>

fun js_lt :: "jsnum \<Rightarrow> jsnum \<Rightarrow> bool" where
  "js_lt (Fin a) (Fin b) = (a < b)"
| "js_lt NaN _ = False"
| "js_lt _ NaN = False"
| "js_lt _ NegInf = False"
| "js_lt NegInf _ = True"
| "js_lt PosInf _ = False"
| "js_lt _ PosInf = True"

definition js_gt :: "jsnum \<Rightarrow> jsnum \<Rightarrow> bool" where
  "js_gt a b = js_lt b a"

definition js_ge :: "jsnum \<Rightarrow> jsnum \<Rightarrow> bool" where
  "js_ge a b = (a \<noteq> NaN \<and> b \<noteq> NaN \<and> \<not> js_lt a b)"

text \<open>\<open>String.prototype.includes\<close>: the argument occurs as a contiguous substring.\<close>

fun str_includes :: "string \<Rightarrow> string \<Rightarrow> bool" where
  "str_includes [] sub = (sub = [])"
| "str_includes (c # cs) sub = (prefix sub (c # cs) \<or> str_includes cs sub)"

datatype js_error = TypeError

section \<open>Market archetype classifier\<close>

datatype archetype =
  shadow | trickster | observer | echo | seer | guardian | prophet | cultist

text \<open>
  \<open>parseFloat(volume) || 0\<close>: a number is converted to its string and parsed back, which
  returns it unchanged; \<open>null\<close> parses to NaN; NaN (and zero) are falsy and become 0.
\<close>

fun parseFloatOr0 :: "jsnum field \<Rightarrow> jsnum" where
  "parseFloatOr0 (Val NaN) = Fin 0"
| "parseFloatOr0 (Val n) = n"
| "parseFloatOr0 _ = Fin 0"

text \<open>
  \<open>symbol.includes(s)\<close> raises a TypeError when \<open>symbol\<close> is \<open>null\<close> (the default
  \<open>''\<close> covers \<open>undefined\<close> only).
\<close>

fun symbolIncludes :: "string field \<Rightarrow> string \<Rightarrow> js_error + bool" where
  "symbolIncludes (Val s) sub = Inr (str_includes s sub)"
| "symbolIncludes _ sub = Inl TypeError"

text \<open>
  \<open>identifyArchetype({ symbol = '', rsi = 50, volume = 0 })\<close>. The value of
  \<open>Math.random()\<close> is the explicit argument \<open>draw\<close>, a number in \<open>[0, 1)\<close>.
\<close>

definition identifyArchetype ::
  "string field \<Rightarrow> jsnum field \<Rightarrow> jsnum field \<Rightarrow> real \<Rightarrow> js_error + archetype" where
  "identifyArchetype symbol0 rsi0 volume0 draw =
    (let symbol = orDefault symbol0 '''';
         rsi = toNumber (orDefault rsi0 (Fin 50));
         v = parseFloatOr0 (orDefault volume0 (Fin 0))
     in if js_lt rsi (Fin 23.6) then Inr shadow
        else if js_lt rsi (Fin 38.2) then
          Inr (if js_gt v (Fin 10000000) then trickster else observer)
        else if js_lt rsi (Fin 50) then Inr echo
        else if js_lt rsi (Fin 61.8) then Inr seer
        else if js_lt rsi (Fin 78.6) then Inr guardian
        else
          (case (if js_ge rsi (Fin 78.6) then symbolIncludes symbol ''SOL'' else Inr False) of
             Inl e \<Rightarrow> Inl e
           | Inr True \<Rightarrow> Inr prophet
           | Inr False \<Rightarrow>
              (case symbolIncludes symbol ''BONK'' of
                 Inl e \<Rightarrow> Inl e
               | Inr True \<Rightarrow> Inr (if draw > 0.3 then cultist else trickster)
               | Inr False \<Rightarrow> Inr seer)))"

section \<open>Lunar signal normalizer\<close>

text \<open>
  Strings are byte lists holding the UTF-8 encoding of the source text; the characters
  outside ASCII that the source uses are named here.
\<close>

definition emDash :: string where "emDash = [CHR 0xE2, CHR 0x80, CHR 0x94]"
definition glyphVeil :: string where "glyphVeil = [CHR 0xE2, CHR 0x9F, CHR 0xA1]"
definition glyphCharge :: string where "glyphCharge = [CHR 0xE2, CHR 0x87, CHR 0x8C]"
definition glyphOverglow :: string where "glyphOverglow = [CHR 0xE2, CHR 0x98, CHR 0x84]"
definition glyphEchofield :: string where "glyphEchofield = [CHR 0xE2, CHR 0x9F, CHR 0x9F]"

text \<open>
  Reading \<open>obj[key]\<close> on an object literal finds the literal's own properties and, for
  any other key, the members every plain object inherits from \<open>Object.prototype\<close>
  (functions, and the prototype object itself for \<open>__proto__\<close>). Each inherited member is
  truthy, is neither \<open>null\<close> nor \<open>undefined\<close>, and converts to the number NaN.
\<close>

datatype 'a lookup = Own 'a | Inherited string | Missing

definition objectPrototypeKeys :: "string list" where
  "objectPrototypeKeys =
    [''constructor'', ''__defineGetter__'', ''__defineSetter__'', ''hasOwnProperty'',
     ''__lookupGetter__'', ''__lookupSetter__'', ''isPrototypeOf'', ''propertyIsEnumerable'',
     ''toString'', ''valueOf'', ''__proto__'', ''toLocaleString'']"

definition getProp :: "(string \<times> 'a) list \<Rightarrow> string \<Rightarrow> 'a lookup" where
  "getProp obj k =
    (case map_of obj k of
       Some v \<Rightarrow> Own v
     | None \<Rightarrow> if k \<in> set objectPrototypeKeys then Inherited k else Missing)"

text \<open>What \<open>getLunarMessage\<close> returns: a text, or the inherited member found under the key.\<close>

datatype message = Text string | Member string

definition lunarMessages :: "(string \<times> string) list" where
  "lunarMessages =
    [(''New Moon'', ''New pattern forming '' @ emDash @ '' wait, don't act.''),
     (''Waxing Crescent'', ''Conviction forming. Early risk finds momentum.''),
     (''First Quarter'', ''Signal friction. Cut noise.''),
     (''Waxing Gibbous'', ''Belief climbing '' @ emDash @ '' echo gaining mass.''),
     (''Full Moon'', ''Full sentiment '' @ emDash @ '' prepare for reversal.''),
     (''Waning Gibbous'', ''Decompression '' @ emDash @ '' profit + shadow emerge.''),
     (''Last Quarter'', ''Ritual endings. Retest mind.''),
     (''Waning Crescent'', ''Fading signal '' @ emDash @ '' prepare to receive anew.'')]"

definition unknownMessage :: string where
  "unknownMessage = ''Lunar unknown '' @ emDash @ '' silence reverberates.''"

text \<open>\<open>map[phase] || "Lunar unknown ..."\<close>: every own entry is a non-empty string.\<close>

definition getLunarMessage :: "string \<Rightarrow> message" where
  "getLunarMessage phase =
    (case getProp lunarMessages phase of
       Own m \<Rightarrow> Text m
     | Inherited k \<Rightarrow> Member k
     | Missing \<Rightarrow> Text unknownMessage)"

record pattern_tier =
  tier :: string
  glyph :: string
  signal :: string

text \<open>
  The parameter is used as the left operand of \<open><\<close> only, which converts it with
  \<open>ToNumber\<close>; the model takes the converted number.
\<close>

definition getLunarPatternTierFromAngle :: "jsnum \<Rightarrow> pattern_tier" where
  "getLunarPatternTierFromAngle angle =
    (if js_lt angle (Fin 22.5) then
       \<lparr>tier = ''Veil'', glyph = glyphVeil,
        signal = ''Nothing reveals '' @ emDash @ '' pause, dream.''\<rparr>
     else if js_lt angle (Fin 67.5) then
       \<lparr>tier = ''Whisper'', glyph = ''~'', signal = ''Pre-signal buildup.''\<rparr>
     else if js_lt angle (Fin 112.5) then
       \<lparr>tier = ''Charge'', glyph = glyphCharge, signal = ''Conviction forming.''\<rparr>
     else if js_lt angle (Fin 157.5) then
       \<lparr>tier = ''Charge'', glyph = glyphCharge, signal = ''Momentum accelerating.''\<rparr>
     else if js_lt angle (Fin 202.5) then
       \<lparr>tier = ''Overglow'', glyph = glyphOverglow,
        signal = ''Full sentiment '' @ emDash @ '' likely reversal.''\<rparr>
     else if js_lt angle (Fin 247.5) then
       \<lparr>tier = ''Echofield'', glyph = glyphEchofield, signal = ''Echo still resonates.''\<rparr>
     else if js_lt angle (Fin 292.5) then
       \<lparr>tier = ''Whisper'', glyph = ''~'', signal = ''Decline forming quietly.''\<rparr>
     else
       \<lparr>tier = ''Veil'', glyph = glyphVeil,
        signal = ''Signal fading '' @ emDash @ '' prepare anew.''\<rparr>)"

text \<open>
  The reduction of an angle into \<open>[0, 360)\<close> that the specification asks for before the
  sector lookup. The source has no such step; the definition is here to compare with.
\<close>

definition reduceAngle :: "real \<Rightarrow> real" where
  "reduceAngle a = a - 360 * of_int \<lfloor>a / 360\<rfloor>"

record lunar_signal =
  phase :: string
  illumination :: string
  message :: message
  pattern :: pattern_tier
  time :: string
  source :: string

text \<open>
  The astronomy service's answer, as far as \<open>getLunarSignal\<close> reads it:
  \<open>j?.astronomy?.astro?.moon_phase\<close> and \<open>moon_illumination\<close>, each \<open>None\<close> when the
  chain ends in \<open>undefined\<close> or \<open>null\<close> (a numeric illumination is held as its text).
  \<open>Rejected\<close> is a \<open>fetch\<close> or \<open>r.json()\<close> that throws.
\<close>

record astro =
  moon_phase :: "string option"
  moon_illumination :: "string option"

datatype fetch_result = Rejected | Json astro

definition angleMap :: "(string \<times> real) list" where
  "angleMap =
    [(''New Moon'', 0), (''Waxing Crescent'', 45), (''First Quarter'', 90),
     (''Waxing Gibbous'', 135), (''Full Moon'', 180), (''Waning Gibbous'', 225),
     (''Last Quarter'', 270), (''Waning Crescent'', 315)]"

text \<open>\<open>x || d\<close> on an optional string: \<open>undefined\<close>, \<open>null\<close> and \<open>""\<close> are falsy.\<close>

fun orElse :: "string option \<Rightarrow> string \<Rightarrow> string" where
  "orElse None d = d"
| "orElse (Some s) d = (if s = [] then d else s)"

definition fallback :: "string \<Rightarrow> lunar_signal" where
  "fallback now =
    \<lparr>phase = ''Waning Crescent'', illumination = ''45'',
     message = getLunarMessage ''Waning Crescent'',
     pattern = getLunarPatternTierFromAngle (Fin 315),
     time = now, source = ''fallback''\<rparr>"

text \<open>
  \<open>getLunarSignal\<close> reads the environment variable \<open>WEATHER_API_KEY\<close> (\<open>key\<close>), awaits the
  service (\<open>res\<close>, not consulted without a key) and reads the clock when it builds the
  fallback (\<open>now0\<close>) and when it builds the answer (\<open>now1\<close>). \<open>angleMap[phase] ?? 0\<close> keeps
  an inherited member, which the comparisons of the tier function convert to NaN. The
  \<open>catch\<close> block returns the fallback object.
\<close>

definition getLunarSignal :: "string option \<Rightarrow> fetch_result \<Rightarrow> string \<Rightarrow> string \<Rightarrow> lunar_signal" where
  "getLunarSignal key res now0 now1 =
    (if orElse key [] = [] then fallback now0
     else case res of
       Rejected \<Rightarrow> fallback now0
     | Json j \<Rightarrow>
        (let phase = orElse (moon_phase j) (phase (fallback now0));
             ill = orElse (moon_illumination j) ''0'';
             angle = (case getProp angleMap phase of
                        Own a \<Rightarrow> Fin a
                      | Inherited k \<Rightarrow> NaN
                      | Missing \<Rightarrow> Fin 0)
         in \<lparr>phase = phase, illumination = ill,
              message = getLunarMessage phase,
              pattern = getLunarPatternTierFromAngle angle,
              time = now1, source = ''weatherapi''\<rparr>))"

section \<open>Number formatting\<close>

text \<open>Arithmetic on numbers: products and quotients of the non-finite values follow IEEE-754.\<close>

fun js_mul :: "jsnum \<Rightarrow> jsnum \<Rightarrow> jsnum" where
  "js_mul NaN _ = NaN"
| "js_mul _ NaN = NaN"
| "js_mul (Fin a) (Fin b) = Fin (a * b)"
| "js_mul (Fin a) PosInf = (if a = 0 then NaN else if 0 < a then PosInf else NegInf)"
| "js_mul (Fin a) NegInf = (if a = 0 then NaN else if 0 < a then NegInf else PosInf)"
| "js_mul PosInf (Fin b) = (if b = 0 then NaN else if 0 < b then PosInf else NegInf)"
| "js_mul NegInf (Fin b) = (if b = 0 then NaN else if 0 < b then NegInf else PosInf)"
| "js_mul PosInf PosInf = PosInf"
| "js_mul NegInf NegInf = PosInf"
| "js_mul PosInf NegInf = NegInf"
| "js_mul NegInf PosInf = NegInf"

fun js_div :: "jsnum \<Rightarrow> jsnum \<Rightarrow> jsnum" where
  "js_div NaN _ = NaN"
| "js_div _ NaN = NaN"
| "js_div (Fin a) (Fin b) =
     (if b = 0 then (if a = 0 then NaN else if 0 < a then PosInf else NegInf)
      else Fin (a / b))"
| "js_div (Fin a) _ = Fin 0"
| "js_div PosInf (Fin b) = (if 0 \<le> b then PosInf else NegInf)"
| "js_div NegInf (Fin b) = (if 0 \<le> b then NegInf else PosInf)"
| "js_div _ _ = NaN"

fun js_abs :: "jsnum \<Rightarrow> jsnum" where
  "js_abs NaN = NaN"
| "js_abs (Fin a) = Fin \<bar>a\<bar>"
| "js_abs _ = PosInf"

definition digitChar :: "nat \<Rightarrow> char" where
  "digitChar d = ''0123456789'' ! d"

fun decimal :: "nat \<Rightarrow> string" where
  "decimal n = (if n < 10 then [digitChar n] else decimal (n div 10) @ [digitChar (n mod 10)])"

declare decimal.simps [simp del]

text \<open>
  \<open>Number.prototype.toFixed(f)\<close>: a non-finite number prints as its name; a magnitude of
  at least \<open>10^21\<close> prints as \<open>Number.prototype.toString\<close> does, in exponent notation, which is
  taken as the parameter \<open>expo\<close>; otherwise the integer \<open>n\<close> nearest to \<open>x * 10^f\<close> (the
  larger one of two) is printed with \<open>f\<close> digits after the point. The sign is decided before
  rounding.
\<close>

definition toFixed :: "(real \<Rightarrow> string) \<Rightarrow> jsnum \<Rightarrow> nat \<Rightarrow> string" where
  "toFixed expo x f =
    (case x of
       NaN \<Rightarrow> ''NaN''
     | PosInf \<Rightarrow> ''Infinity''
     | NegInf \<Rightarrow> ''-Infinity''
     | Fin r \<Rightarrow>
        (let s = (if r < 0 then ''-'' else []);
             a = \<bar>r\<bar>
         in if 10 ^ 21 \<le> a then s @ expo a
            else
              (let n = nat \<lfloor>a * 10 ^ f + 1 / 2\<rfloor>;
                   m = decimal n;
                   z = replicate (f + 1 - length m) (CHR ''0'') @ m;
                   k = length z
               in s @ (if f \<noteq> 0 then take (k - f) z @ ''.'' @ drop (k - f) z else m))))"

text \<open>\<open>!num && num !== 0\<close>: the value is \<open>undefined\<close>, \<open>null\<close> or NaN.\<close>

fun absent :: "jsnum field \<Rightarrow> bool" where
  "absent (Val NaN) = True"
| "absent (Val n) = False"
| "absent _ = True"

text \<open>\<open>formatNumber(num, decimals = 2)\<close> of the first two variants of the file.\<close>

definition formatNumber :: "(real \<Rightarrow> string) \<Rightarrow> jsnum field \<Rightarrow> string" where
  "formatNumber expo num =
    (let n = toNumber num; decimals = 2
     in if absent num then ''--''
        else if js_ge n (Fin 1000000000) then toFixed expo (js_div n (Fin 1000000000)) decimals @ ''B''
        else if js_ge n (Fin 1000000) then toFixed expo (js_div n (Fin 1000000)) decimals @ ''M''
        else if js_ge n (Fin 1000) then toFixed expo (js_div n (Fin 1000)) decimals @ ''K''
        else toFixed expo n decimals)"

definition formatPrice :: "(real \<Rightarrow> string) \<Rightarrow> jsnum field \<Rightarrow> string" where
  "formatPrice expo price =
    (let p = toNumber price
     in if absent price then ''--''
        else if js_lt p (Fin 0.01) then toFixed expo p 8
        else if js_lt p (Fin 1) then toFixed expo p 4
        else toFixed expo p 2)"

definition formatPercent :: "(real \<Rightarrow> string) \<Rightarrow> jsnum field \<Rightarrow> string" where
  "formatPercent expo num =
    (let n = toNumber num
     in if absent num then ''--''
        else (if js_gt n (Fin 0) then ''+'' else []) @ toFixed expo n 2 @ ''%'')"

section \<open>Report formatter\<close>

definition dq :: char where "dq = CHR 0x22"
definition nl :: string where "nl = [CHR 0x0A]"
definition omegaSign :: string where "omegaSign = [CHR 0xCE, CHR 0xA9]"
definition deltaSign :: string where "deltaSign = [CHR 0xCE, CHR 0x94]"
definition phiSign :: string where "phiSign = [CHR 0xCF, CHR 0x86]"
definition lozenge :: string where "lozenge = [CHR 0xE2, CHR 0x97, CHR 0x87]"
definition bullet :: string where "bullet = [CHR 0xE2, CHR 0x80, CHR 0xA2]"

text \<open>\<open>subject.replace(pat, rep)\<close> with a string pattern: the first occurrence only.\<close>

fun replaceFirst :: "string \<Rightarrow> string \<Rightarrow> string \<Rightarrow> string" where
  "replaceFirst pat rep [] = (if pat = [] then rep else [])"
| "replaceFirst pat rep (c # cs) =
     (if prefix pat (c # cs) then rep @ drop (length pat) (c # cs)
      else c # replaceFirst pat rep cs)"

text \<open>
  \<open>trim()\<close> removes white space and line terminators at both ends; of these the model
  knows the ASCII ones (tab, line feed, vertical tab, form feed, carriage return, space).
\<close>

definition isSpace :: "char \<Rightarrow> bool" where
  "isSpace c = (c \<in> set [CHR 0x09, CHR 0x0A, CHR 0x0B, CHR 0x0C, CHR 0x0D, CHR 0x20])"

definition trim :: "string \<Rightarrow> string" where
  "trim s = rev (dropWhile isSpace (rev (dropWhile isSpace s)))"

text \<open>
  \<open>toUpperCase()\<close> on the ASCII letters; bytes of other characters are left as they are.
\<close>

definition upperChar :: "char \<Rightarrow> char" where
  "upperChar c =
    (case map_of (zip ''abcdefghijklmnopqrstuvwxyz'' ''ABCDEFGHIJKLMNOPQRSTUVWXYZ'') c of
       Some u \<Rightarrow> u
     | None \<Rightarrow> c)"

definition toUpperCase :: "string \<Rightarrow> string" where
  "toUpperCase s = map upperChar s"

text \<open>
  \<open>response.match(/"([^"]+)"/)\<close>: the capture group of the leftmost match, that is of the
  first double quote that is followed by at least one other character and then by a
  double quote.
\<close>

fun quoteMatch :: "string \<Rightarrow> string option" where
  "quoteMatch [] = None"
| "quoteMatch (c # cs) =
     (let inner = takeWhile (\<lambda>x. x \<noteq> dq) cs;
          rest = dropWhile (\<lambda>x. x \<noteq> dq) cs
      in if c = dq \<and> inner \<noteq> [] \<and> rest \<noteq> [] then Some inner else quoteMatch cs)"

text \<open>An integer-valued number in a template literal.\<close>

definition intToString :: "(real \<Rightarrow> string) \<Rightarrow> int \<Rightarrow> string" where
  "intToString expo i =
    (if i < 0 then ''-'' else []) @
    (if 10 ^ 21 \<le> \<bar>i\<bar> then expo (real_of_int \<bar>i\<bar>) else decimal (nat \<bar>i\<bar>))"

text \<open>
  The token snapshot. A numeric property is \<open>undefined\<close>, \<open>null\<close> or a number (the
  market-data reader stores \<open>Number(x)\<close>, which is NaN for a missing \<open>x\<close>, and \<open>null\<close> for
  an RSI it cannot compute); \<open>symbol\<close> and \<open>name\<close> are strings or missing.
\<close>

record token_data =
  symbol :: "string option"
  rsi :: "jsnum field"
  volumeUSD :: "jsnum field"
  price :: "jsnum field"
  marketCap :: "jsnum field"
  fdv :: "jsnum field"
  circulatingSupply :: "jsnum field"
  totalSupply :: "jsnum field"
  holders :: "jsnum field"
  change24h :: "jsnum field"
  name :: "string option"

text \<open>The four values \<open>Math.random()\<close> returns during one call, in call order.\<close>

record draws =
  drawDeltaKey :: real
  drawPhaseDrift :: real
  drawOmega :: real
  drawDelta :: real

text \<open>
  The function returns the text \<open>tweet\<close>; the record also shows the local constants the
  text is assembled from.
\<close>

record oracle_report =
  mysticalQuote :: string
  oraclePulse :: string
  volMcapRatio :: string
  cycleIndex :: string
  threshold :: string
  echoRim :: string
  deltaKey :: string
  phaseDrift :: string
  alignmentString :: string
  tweet :: string

text \<open>\<open>const { p = d } = tokenData || {}\<close> for a numeric and for a string property.\<close>

definition rawProp :: "token_data option \<Rightarrow> (token_data \<Rightarrow> jsnum field) \<Rightarrow> real \<Rightarrow> jsnum field" where
  "rawProp tokenData sel d =
    orDefault (case tokenData of None \<Rightarrow> Undefined | Some t \<Rightarrow> sel t) (Fin d)"

definition strProp :: "token_data option \<Rightarrow> (token_data \<Rightarrow> string option) \<Rightarrow> string \<Rightarrow> string" where
  "strProp tokenData sel d =
    (case tokenData of None \<Rightarrow> d | Some t \<Rightarrow> (case sel t of None \<Rightarrow> d | Some s \<Rightarrow> s))"

definition defaultQuote :: string where
  "defaultQuote = [dq] @
     ''Mid-caps awaken as rotation intensifies; the spiral pulls tight around a new pivot.''
     @ [dq]"

text \<open>
  The \<open>try\<close> block around the completion request. \<open>completion\<close> is the text
  \<open>res.choices[0].message.content\<close>, \<open>None\<close> when the request or that access throws; the
  \<open>catch\<close> block keeps the quote and the pulse computed before.
\<close>

definition parseCompletion :: "string option \<Rightarrow> string \<times> string \<Rightarrow> string \<times> string" where
  "parseCompletion completion dflt =
    (case completion of
       None \<Rightarrow> dflt
     | Some content \<Rightarrow>
        (let response = trim content
         in case quoteMatch response of
              Some inner \<Rightarrow>
                ([dq] @ inner @ [dq], trim (replaceFirst ([dq] @ inner @ [dq]) [] response))
            | None \<Rightarrow> (fst dflt, response)))"

text \<open>The lines of the post below its headline, the same in both variants.\<close>

definition tweetBody ::
  "(real \<Rightarrow> string) \<Rightarrow> token_data option \<Rightarrow> oracle_report \<Rightarrow> string" where
  "tweetBody expo tokenData r =
    (let symbol = strProp tokenData symbol ''XXX''
     in nl @ nl @ mysticalQuote r @ nl @ nl
      @ ''Price: '' @ formatPrice expo (rawProp tokenData price 0) @ '' '' @ bullet
      @ '' 24h Change: '' @ formatPercent expo (rawProp tokenData change24h 0) @ nl
      @ ''24h Volume: '' @ formatNumber expo (rawProp tokenData volumeUSD 0) @ nl
      @ ''Market Cap: '' @ formatNumber expo (rawProp tokenData marketCap 0) @ nl
      @ ''Fully Diluted Valuation: '' @ formatNumber expo (rawProp tokenData fdv 0) @ nl
      @ ''Circulating Supply: '' @ formatNumber expo (rawProp tokenData circulatingSupply 0)
      @ '' '' @ symbol @ nl
      @ ''Volume/Market Cap: '' @ volMcapRatio r @ ''%'' @ nl
      @ ''Holders: ''
      @ formatNumber expo (Val (js_div (toNumber (rawProp tokenData holders 0)) (Fin 1000))) @ ''K'' @ nl
      @ ''Total Supply: ''
      @ formatNumber expo (Val (js_div (toNumber (rawProp tokenData totalSupply 0)) (Fin 1000000)))
      @ ''M '' @ symbol @ nl
      @ ''Cycle Index: '' @ cycleIndex r @ '' /'' @ phiSign @ nl
      @ ''Threshold: '' @ threshold r @ nl
      @ ''Echo Rim: '' @ echoRim r @ nl
      @ deltaSign @ ''-Key: '' @ deltaKey r @ nl
      @ ''Phase Drift: '' @ phaseDrift r @ '' / h'' @ nl
      @ ''Alignment String:'' @ nl
      @ alignmentString r @ nl @ nl
      @ ''Oracle Pulse:'' @ nl
      @ oraclePulse r)"

definition alignment ::
  "(real \<Rightarrow> string) \<Rightarrow> string \<Rightarrow> draws \<Rightarrow> string \<Rightarrow> string \<Rightarrow> string" where
  "alignment expo smb rnd th rim =
    (let omega = \<lfloor>drawOmega rnd * 999\<rfloor>;
         delta = \<lfloor>drawDelta rnd * 99\<rfloor>;
         thNum = replaceFirst ''.'' [] th;
         echoNum = replaceFirst ''.'' [] rim
     in smb @ ''-'' @ intToString expo omega @ omegaSign @ '' / '' @ deltaSign
        @ intToString expo delta @ '' : TH'' @ thNum @ '' < ECHO > '' @ echoNum)"

text \<open>
  \<open>generateOracleInsight(lunar, tokenData, archetype)\<close> as the file first defines it.
  \<open>lunar\<close> and \<open>archetype\<close> enter the prompt of the completion request only; the
  request's outcome is the argument \<open>completion\<close>, and the values of \<open>Math.random()\<close>
  are the argument \<open>rnd\<close>. \<open>threshold\<close> and \<open>echoRim\<close> are printed with two decimals.
\<close>

definition generateOracleInsight ::
  "(real \<Rightarrow> string) \<Rightarrow> lunar_signal option \<Rightarrow> token_data option \<Rightarrow> archetype
    \<Rightarrow> draws \<Rightarrow> string option \<Rightarrow> oracle_report" where
  "generateOracleInsight expo lunar tokenData archetype rnd completion =
    (let symbol = strProp tokenData symbol ''XXX'';
         rsi = rawProp tokenData rsi 50;
         volumeUSD = rawProp tokenData volumeUSD 0;
         price = rawProp tokenData price 0;
         marketCap = rawProp tokenData marketCap 0;
         change24h = rawProp tokenData change24h 0;
         volMcapRatio =
           (if js_gt (toNumber marketCap) (Fin 0)
            then toFixed expo (js_mul (js_div (toNumber volumeUSD) (toNumber marketCap)) (Fin 100)) 1
            else ''0.0'');
         cycleIndex = toFixed expo (js_mul (js_div (toNumber rsi) (Fin 100)) (Fin 1.618)) 2;
         threshold = toFixed expo (js_mul (toNumber price) (Fin 1.05)) 2;
         echoRim = toFixed expo (js_mul (toNumber price) (Fin 1.15)) 2;
         deltaKey = toFixed expo (Fin (drawDeltaKey rnd * 2 + 0.5)) 2;
         phaseDrift = toFixed expo (Fin ((drawPhaseDrift rnd - 0.5) * 0.05)) 4;
         alignmentString = alignment expo symbol rnd threshold echoRim;
         pulse0 = symbol @ '' is consolidating above $''
           @ formatPrice expo price
           @ '' with strong volume and nearly a '' @ toFixed expo (js_abs (toNumber change24h)) 0
           @ ''% daily gain. Market cap expansion alongside a high volume-to-market-cap ratio suggests bullish rotation into mids. A sustained break above ''
           @ threshold @ '' could open the mirror toward '' @ echoRim
           @ '', while weakness below '' @ toFixed expo (js_mul (toNumber price) (Fin 0.96)) 2
           @ '' may trigger a retrace to the mid-'' @ toFixed expo (js_mul (toNumber price) (Fin 0.9)) 0
           @ ''s.'';
         qp = parseCompletion completion (defaultQuote, pulse0);
         r = \<lparr>mysticalQuote = fst qp, oraclePulse = snd qp, volMcapRatio = volMcapRatio,
              cycleIndex = cycleIndex, threshold = threshold, echoRim = echoRim,
              deltaKey = deltaKey, phaseDrift = phaseDrift,
              alignmentString = alignmentString, tweet = []\<rparr>
     in r\<lparr>tweet := lozenge @ '' EVAA PROTOCOL // EVAA '' @ emDash @ '' ACTIVE READ (Refined)''
              @ tweetBody expo tokenData r\<rparr>)"

text \<open>
  The second definition of \<open>generateOracleInsight\<close> in the file: \<open>threshold\<close>,
  \<open>echoRim\<close> and the lower level of the pulse go through \<open>formatPrice\<close>, and the headline
  names the token. \<open>name.toUpperCase()\<close> is applied to a string or to the default.
\<close>

definition generateOracleInsight2 ::
  "(real \<Rightarrow> string) \<Rightarrow> lunar_signal option \<Rightarrow> token_data option \<Rightarrow> archetype
    \<Rightarrow> draws \<Rightarrow> string option \<Rightarrow> oracle_report" where
  "generateOracleInsight2 expo lunar tokenData archetype rnd completion =
    (let symbol = strProp tokenData symbol ''XXX'';
         rsi = rawProp tokenData rsi 50;
         volumeUSD = rawProp tokenData volumeUSD 0;
         price = rawProp tokenData price 0;
         marketCap = rawProp tokenData marketCap 0;
         change24h = rawProp tokenData change24h 0;
         name = strProp tokenData name ''Unknown Token'';
         volMcapRatio =
           (if js_gt (toNumber marketCap) (Fin 0)
            then toFixed expo (js_mul (js_div (toNumber volumeUSD) (toNumber marketCap)) (Fin 100)) 1
            else ''0.0'');
         cycleIndex = toFixed expo (js_mul (js_div (toNumber rsi) (Fin 100)) (Fin 1.618)) 2;
         threshold = formatPrice expo (Val (js_mul (toNumber price) (Fin 1.05)));
         echoRim = formatPrice expo (Val (js_mul (toNumber price) (Fin 1.15)));
         deltaKey = toFixed expo (Fin (drawDeltaKey rnd * 2 + 0.5)) 2;
         phaseDrift = toFixed expo (Fin ((drawPhaseDrift rnd - 0.5) * 0.05)) 4;
         alignmentString = alignment expo symbol rnd threshold echoRim;
         pulse0 = symbol @ '' is consolidating above $''
           @ formatPrice expo price
           @ '' with strong volume and nearly a '' @ toFixed expo (js_abs (toNumber change24h)) 0
           @ ''% daily gain. Market cap expansion alongside a high volume-to-market-cap ratio suggests bullish rotation into mids. A sustained break above ''
           @ threshold @ '' could open the mirror toward '' @ echoRim
           @ '', while weakness below '' @ formatPrice expo (Val (js_mul (toNumber price) (Fin 0.96)))
           @ '' may trigger a retrace to the mid-'' @ toFixed expo (js_mul (toNumber price) (Fin 0.9)) 0
           @ ''s.'';
         qp = parseCompletion completion (defaultQuote, pulse0);
         r = \<lparr>mysticalQuote = fst qp, oraclePulse = snd qp, volMcapRatio = volMcapRatio,
              cycleIndex = cycleIndex, threshold = threshold, echoRim = echoRim,
              deltaKey = deltaKey, phaseDrift = phaseDrift,
              alignmentString = alignmentString, tweet = []\<rparr>
     in r\<lparr>tweet := lozenge @ '' '' @ toUpperCase name @ '' // '' @ symbol @ '' '' @ emDash
              @ '' ACTIVE READ (Refined)'' @ tweetBody expo tokenData r\<rparr>)"

section \<open>Properties of the classifier\<close>

lemma includes_sublist: "str_includes s sub = sublist sub s"
  by (induction s) (auto simp: sublist_Cons_right)

text \<open>
  Claim C5. The decision ladder on its deterministic branches, for every symbol \<open>sy\<close>
  (a string, \<open>null\<close> or missing), every number \<open>x\<close> as RSI, every volume and every draw:
  below 23.6 the shadow; from 23.6 and below 38.2 the trickster when the volume exceeds
  10,000,000 and the observer otherwise (also for a missing, \<open>null\<close> or NaN volume); from 38.2
  and below 50 the echo; from 50 and below 61.8 the seer; from 61.8 and below 78.6 the
  guardian; from 78.6 on the prophet for a symbol that contains \<open>SOL\<close>, and the seer for a
  symbol that contains neither \<open>SOL\<close> nor \<open>BONK\<close>. In particular \<open>("BTC", 20, 0)\<close> is a
  shadow, \<open>("DOGE", 30, 15000000)\<close> a trickster, \<open>("DOGE", 30, 5000000)\<close> an observer, and at
  RSI 80 \<open>"SOL"\<close> is a prophet and \<open>"XYZ"\<close> a seer whatever the volume.
\<close>

theorem classify_ladder_examples:
  "identifyArchetype (Val ''BTC'') (Val (Fin 20)) (Val (Fin 0)) d = Inr shadow
   \<and> identifyArchetype (Val ''DOGE'') (Val (Fin 30)) (Val (Fin 15000000)) d = Inr trickster
   \<and> identifyArchetype (Val ''DOGE'') (Val (Fin 30)) (Val (Fin 5000000)) d = Inr observer
   \<and> identifyArchetype (Val ''SOL'') (Val (Fin 80)) v d = Inr prophet
   \<and> identifyArchetype (Val ''XYZ'') (Val (Fin 80)) v d = Inr seer
   \<and> (\<not> str_includes s ''SOL'' \<and> \<not> str_includes s ''BONK'' \<longrightarrow>
         identifyArchetype (Val s) (Val (Fin 80)) v d = Inr seer)
   \<and> (x < 23.6 \<longrightarrow> identifyArchetype sy (Val (Fin x)) v d = Inr shadow)
   \<and> (23.6 \<le> x \<and> x < 38.2 \<longrightarrow>
         identifyArchetype sy (Val (Fin x)) (Val (Fin w)) d
           = Inr (if 10000000 < w then trickster else observer)
         \<and> identifyArchetype sy (Val (Fin x)) Undefined d = Inr observer
         \<and> identifyArchetype sy (Val (Fin x)) Null d = Inr observer
         \<and> identifyArchetype sy (Val (Fin x)) (Val NaN) d = Inr observer)
   \<and> (38.2 \<le> x \<and> x < 50 \<longrightarrow> identifyArchetype sy (Val (Fin x)) v d = Inr echo)
   \<and> (50 \<le> x \<and> x < 61.8 \<longrightarrow> identifyArchetype sy (Val (Fin x)) v d = Inr seer)
   \<and> (61.8 \<le> x \<and> x < 78.6 \<longrightarrow> identifyArchetype sy (Val (Fin x)) v d = Inr guardian)
   \<and> (78.6 \<le> x \<and> str_includes s ''SOL'' \<longrightarrow>
         identifyArchetype (Val s) (Val (Fin x)) v d = Inr prophet)
   \<and> (78.6 \<le> x \<and> \<not> str_includes s ''SOL'' \<and> \<not> str_includes s ''BONK'' \<longrightarrow>
         identifyArchetype (Val s) (Val (Fin x)) v d = Inr seer)"
  by (simp add: identifyArchetype_def js_gt_def js_ge_def Let_def)

theorem classify_ladder_examples_witness:
  "\<not> str_includes ''ETH'' ''SOL'' \<and> \<not> str_includes ''ETH'' ''BONK''
   \<and> str_includes ''SOLANA'' ''SOL''
   \<and> identifyArchetype (Val ''ETH'') (Val (Fin 80)) (Val (Fin 123)) (1 / 4) = Inr seer
   \<and> identifyArchetype (Val ''SOL'') (Val (Fin 80)) Null (1 / 4) = Inr prophet
   \<and> (23 :: real) < 23.6
   \<and> identifyArchetype (Val ''ETH'') (Val (Fin 23)) (Val (Fin 123)) (1 / 4) = Inr shadow
   \<and> (23.6 :: real) \<le> 23.6 \<and> (23.6 :: real) < 38.2
   \<and> identifyArchetype (Val ''ETH'') (Val (Fin 23.6)) (Val (Fin 10000001)) (1 / 4) = Inr trickster
   \<and> identifyArchetype (Val ''ETH'') (Val (Fin 23.6)) (Val (Fin 10000000)) (1 / 4) = Inr observer
   \<and> identifyArchetype (Val ''ETH'') (Val (Fin 23.6)) Undefined (1 / 4) = Inr observer
   \<and> (38.2 :: real) \<le> 38.2 \<and> (38.2 :: real) < 50
   \<and> identifyArchetype (Val ''ETH'') (Val (Fin 38.2)) (Val (Fin 123)) (1 / 4) = Inr echo
   \<and> (50 :: real) \<le> 50 \<and> (50 :: real) < 61.8
   \<and> identifyArchetype (Val ''ETH'') (Val (Fin 50)) (Val (Fin 123)) (1 / 4) = Inr seer
   \<and> (61.8 :: real) \<le> 61.8 \<and> (61.8 :: real) < 78.6
   \<and> identifyArchetype (Val ''ETH'') (Val (Fin 61.8)) (Val (Fin 123)) (1 / 4) = Inr guardian
   \<and> (78.6 :: real) \<le> 78.6
   \<and> identifyArchetype (Val ''SOLANA'') (Val (Fin 78.6)) (Val (Fin 123)) (1 / 4) = Inr prophet
   \<and> identifyArchetype (Val ''ETH'') (Val (Fin 78.6)) (Val (Fin 123)) (1 / 4) = Inr seer"
  using classify_ladder_examples [of "1 / 4" "Val (Fin 123)" "''ETH''" 80 "Val ''ETH''" 0]
    classify_ladder_examples [of "1 / 4" Null "''ETH''" 80 "Val ''ETH''" 0]
    classify_ladder_examples [of "1 / 4" "Val (Fin 123)" "''ETH''" 23 "Val ''ETH''" 0]
    classify_ladder_examples [of "1 / 4" "Val (Fin 123)" "''ETH''" "23.6" "Val ''ETH''" 10000001]
    classify_ladder_examples [of "1 / 4" "Val (Fin 123)" "''ETH''" "23.6" "Val ''ETH''" 10000000]
    classify_ladder_examples [of "1 / 4" "Val (Fin 123)" "''ETH''" "38.2" "Val ''ETH''" 0]
    classify_ladder_examples [of "1 / 4" "Val (Fin 123)" "''ETH''" 50 "Val ''ETH''" 0]
    classify_ladder_examples [of "1 / 4" "Val (Fin 123)" "''ETH''" "61.8" "Val ''ETH''" 0]
    classify_ladder_examples [of "1 / 4" "Val (Fin 123)" "''SOLANA''" "78.6" "Val ''ETH''" 0]
    classify_ladder_examples [of "1 / 4" "Val (Fin 123)" "''ETH''" "78.6" "Val ''ETH''" 0]
  by simp

text \<open>
  Claim C9. With \<open>rsi = null\<close> the default of 50 is not used: \<open>null\<close> converts to 0, which
  is below the first threshold, and the result is the shadow for every symbol and
  volume. With \<open>rsi = 50\<close>, or with no \<open>rsi\<close> at all, a symbol gets the seer.
\<close>

theorem null_rsi_is_shadow:
  "identifyArchetype sy Null v d = Inr shadow
   \<and> identifyArchetype sy (Val (Fin 50)) v d = Inr seer
   \<and> identifyArchetype sy Undefined v d = Inr seer"
  by (simp add: identifyArchetype_def js_gt_def js_ge_def)

text \<open>
  Claim C1, as the code has it. The cultist/trickster draw is the last rung of the
  ladder, not an override applied after it. For a symbol that contains \<open>BONK\<close> and an RSI
  that is a number \<open>r\<close>:
  \<^item> while \<open>r\<close> is below 78.6 the band's archetype is returned, the same for every draw and
    never the cultist: the shadow below 23.6; from 23.6 and below 38.2 the trickster when
    the volume exceeds 10,000,000 and the observer otherwise; the echo from 38.2 and below
    50; the seer from 50 and below 61.8; the guardian from 61.8 and below 78.6;
  \<^item> when \<open>r\<close> is 78.6 or more and the symbol also contains \<open>SOL\<close>, the SOL rule fires and
    the result is the prophet for every draw;
  \<^item> when \<open>r\<close> is not below 78.6 and the SOL rule does not fire (\<open>r\<close> is 78.6 or more and
    the symbol has no \<open>SOL\<close>, or \<open>r\<close> is NaN), the result is the cultist exactly when the
    draw exceeds 0.3 and the trickster otherwise, so that a uniform draw in \<open>[0, 1)\<close> gives
    the cultist on the interval \<open>(0.3, 1)\<close>, of length 0.7.
  In particular \<open>("BONKCOIN", 45, 0)\<close> is an echo for every draw.
\<close>

theorem bonk_tiebreak_is_last_rung:
  assumes "str_includes s ''BONK''"
  shows "(js_lt r (Fin 78.6) \<longrightarrow>
            identifyArchetype (Val s) (Val r) v d = identifyArchetype (Val s) (Val r) v d'
            \<and> identifyArchetype (Val s) (Val r) v d \<noteq> Inr cultist)
       \<and> (js_lt r (Fin 23.6) \<longrightarrow> identifyArchetype (Val s) (Val r) v d = Inr shadow)
       \<and> (\<not> js_lt r (Fin 23.6) \<and> js_lt r (Fin 38.2) \<longrightarrow>
            identifyArchetype (Val s) (Val r) (Val (Fin w)) d
              = Inr (if 10000000 < w then trickster else observer)
            \<and> identifyArchetype (Val s) (Val r) Undefined d = Inr observer
            \<and> identifyArchetype (Val s) (Val r) Null d = Inr observer
            \<and> identifyArchetype (Val s) (Val r) (Val NaN) d = Inr observer)
       \<and> (\<not> js_lt r (Fin 38.2) \<and> js_lt r (Fin 50) \<longrightarrow>
            identifyArchetype (Val s) (Val r) v d = Inr echo)
       \<and> (\<not> js_lt r (Fin 50) \<and> js_lt r (Fin 61.8) \<longrightarrow>
            identifyArchetype (Val s) (Val r) v d = Inr seer)
       \<and> (\<not> js_lt r (Fin 61.8) \<and> js_lt r (Fin 78.6) \<longrightarrow>
            identifyArchetype (Val s) (Val r) v d = Inr guardian)
       \<and> (js_ge r (Fin 78.6) \<and> str_includes s ''SOL'' \<longrightarrow>
            identifyArchetype (Val s) (Val r) v d = Inr prophet)
       \<and> (\<not> js_lt r (Fin 78.6) \<and> \<not> (js_ge r (Fin 78.6) \<and> str_includes s ''SOL'') \<longrightarrow>
            identifyArchetype (Val s) (Val r) v d = Inr (if 0.3 < d then cultist else trickster)
            \<and> {x. 0 \<le> x \<and> x < 1 \<and> identifyArchetype (Val s) (Val r) v x = Inr cultist}
                = {3 / 10 <..< 1})
       \<and> (\<not> js_lt r (Fin 78.6) \<and> \<not> str_includes s ''SOL'' \<longrightarrow>
            identifyArchetype (Val s) (Val r) v d = Inr (if 0.3 < d then cultist else trickster)
            \<and> {x. 0 \<le> x \<and> x < 1 \<and> identifyArchetype (Val s) (Val r) v x = Inr cultist}
                = {3 / 10 <..< 1})
       \<and> identifyArchetype (Val ''BONKCOIN'') (Val (Fin 45)) (Val (Fin 0)) d = Inr echo"
  using assms
  by (cases r) (auto simp add: identifyArchetype_def js_gt_def js_ge_def Let_def)

theorem bonk_tiebreak_is_last_rung_witness:
  "str_includes ''BONKCOIN'' ''BONK'' \<and> \<not> str_includes ''BONKCOIN'' ''SOL''
   \<and> str_includes ''SOLBONK'' ''BONK'' \<and> str_includes ''SOLBONK'' ''SOL''
   \<and> js_lt (Fin 45) (Fin 78.6) \<and> \<not> js_lt (Fin 80) (Fin 78.6) \<and> js_ge (Fin 80) (Fin 78.6)
   \<and> \<not> js_lt NaN (Fin 78.6) \<and> \<not> js_ge NaN (Fin 78.6)
   \<and> identifyArchetype (Val ''BONKCOIN'') (Val (Fin 45)) (Val (Fin 0)) (9 / 10)
       = identifyArchetype (Val ''BONKCOIN'') (Val (Fin 45)) (Val (Fin 0)) (1 / 10)
   \<and> identifyArchetype (Val ''BONKCOIN'') (Val (Fin 20)) (Val (Fin 0)) (9 / 10) = Inr shadow
   \<and> identifyArchetype (Val ''BONKCOIN'') (Val (Fin 30)) (Val (Fin 15000000)) (9 / 10)
       = Inr trickster
   \<and> identifyArchetype (Val ''BONKCOIN'') (Val (Fin 30)) (Val (Fin 5000000)) (9 / 10)
       = Inr observer
   \<and> identifyArchetype (Val ''BONKCOIN'') (Val (Fin 45)) (Val (Fin 0)) (9 / 10) = Inr echo
   \<and> identifyArchetype (Val ''BONKCOIN'') (Val (Fin 55)) (Val (Fin 0)) (9 / 10) = Inr seer
   \<and> identifyArchetype (Val ''BONKCOIN'') (Val (Fin 70)) (Val (Fin 0)) (9 / 10) = Inr guardian
   \<and> identifyArchetype (Val ''BONKCOIN'') (Val (Fin 80)) (Val (Fin 0)) (9 / 10) = Inr cultist
   \<and> identifyArchetype (Val ''BONKCOIN'') (Val (Fin 80)) (Val (Fin 0)) (1 / 10) = Inr trickster
   \<and> identifyArchetype (Val ''SOLBONK'') (Val (Fin 80)) (Val (Fin 0)) (9 / 10) = Inr prophet
   \<and> identifyArchetype (Val ''SOLBONK'') (Val NaN) (Val (Fin 0)) (9 / 10) = Inr cultist
   \<and> identifyArchetype (Val ''SOLBONK'') (Val NaN) (Val (Fin 0)) (1 / 10) = Inr trickster"
proof -
  have h: "str_includes ''BONKCOIN'' ''BONK''" by simp
  have g: "str_includes ''SOLBONK'' ''BONK''" by simp
  show ?thesis
    using h g
      bonk_tiebreak_is_last_rung [OF h, of "Fin 45" "Val (Fin 0)" "9 / 10" "1 / 10" 0]
      bonk_tiebreak_is_last_rung [OF h, of "Fin 20" "Val (Fin 0)" "9 / 10" "1 / 10" 0]
      bonk_tiebreak_is_last_rung [OF h, of "Fin 30" "Val (Fin 0)" "9 / 10" "1 / 10" 15000000]
      bonk_tiebreak_is_last_rung [OF h, of "Fin 30" "Val (Fin 0)" "9 / 10" "1 / 10" 5000000]
      bonk_tiebreak_is_last_rung [OF h, of "Fin 55" "Val (Fin 0)" "9 / 10" "1 / 10" 0]
      bonk_tiebreak_is_last_rung [OF h, of "Fin 70" "Val (Fin 0)" "9 / 10" "1 / 10" 0]
      bonk_tiebreak_is_last_rung [OF h, of "Fin 80" "Val (Fin 0)" "9 / 10" "1 / 10" 0]
      bonk_tiebreak_is_last_rung [OF h, of "Fin 80" "Val (Fin 0)" "1 / 10" "1 / 10" 0]
      bonk_tiebreak_is_last_rung [OF g, of "Fin 80" "Val (Fin 0)" "9 / 10" "1 / 10" 0]
      bonk_tiebreak_is_last_rung [OF g, of NaN "Val (Fin 0)" "9 / 10" "1 / 10" 0]
      bonk_tiebreak_is_last_rung [OF g, of NaN "Val (Fin 0)" "1 / 10" "1 / 10" 0]
    by (simp add: js_ge_def identifyArchetype_def js_gt_def)
qed

theorem bonk_override_counterexample:
  "identifyArchetype (Val ''BONKCOIN'') (Val (Fin 45)) (Val (Fin 0)) (1 / 2) = Inr echo
   \<and> identifyArchetype (Val ''BONKCOIN'') (Val (Fin 45)) (Val (Fin 0)) (1 / 2) \<noteq> Inr cultist
   \<and> (3 / 10 :: real) < 1 / 2"
  by (simp add: identifyArchetype_def js_gt_def js_ge_def)

section \<open>Properties of the lunar normalizer\<close>

lemma reduceAngle_id: "0 \<le> a \<Longrightarrow> a < 360 \<Longrightarrow> reduceAngle a = a"
proof -
  assume "0 \<le> a" "a < 360"
  then have "\<lfloor>a / 360\<rfloor> = 0"
    by (simp add: floor_eq_iff)
  then show ?thesis
    by (simp add: reduceAngle_def)
qed



text \<open>
  Claim C3, as the code has it. The lookup does not reduce its argument modulo 360. It
  agrees with the lookup of the reduced angle for the angles that are already in
  \<open>[0, 360)\<close>; every angle below 22.5, the negative ones included, gets the first sector
  (that of 0), and every angle from 292.5 on, those of 360 and more included, gets the
  last sector (that of 315).
\<close>

theorem no_reduction_modulo_360:
  "(0 \<le> a \<and> a < 360 \<longrightarrow>
      getLunarPatternTierFromAngle (Fin a) = getLunarPatternTierFromAngle (Fin (reduceAngle a)))
   \<and> (a < 22.5 \<longrightarrow> getLunarPatternTierFromAngle (Fin a) = getLunarPatternTierFromAngle (Fin 0))
   \<and> (292.5 \<le> a \<longrightarrow>
      getLunarPatternTierFromAngle (Fin a) = getLunarPatternTierFromAngle (Fin 315))"
  by (simp add: reduceAngle_id) (simp add: getLunarPatternTierFromAngle_def)

theorem no_reduction_modulo_360_witness:
  "(0 :: real) \<le> 100 \<and> (100 :: real) < 360
   \<and> getLunarPatternTierFromAngle (Fin 100) = getLunarPatternTierFromAngle (Fin (reduceAngle 100))
   \<and> (-10 :: real) < 22.5
   \<and> getLunarPatternTierFromAngle (Fin (-10)) = getLunarPatternTierFromAngle (Fin 0)
   \<and> (292.5 :: real) \<le> 400
   \<and> getLunarPatternTierFromAngle (Fin 400) = getLunarPatternTierFromAngle (Fin 315)"
  using no_reduction_modulo_360 [of 100] no_reduction_modulo_360 [of "-10"]
    no_reduction_modulo_360 [of 400]
  by simp

theorem reduction_modulo_360_counterexample:
  "reduceAngle 400 = 40
   \<and> tier (getLunarPatternTierFromAngle (Fin 400)) = ''Veil''
   \<and> tier (getLunarPatternTierFromAngle (Fin (reduceAngle 400))) = ''Whisper''
   \<and> getLunarPatternTierFromAngle (Fin 400)
        \<noteq> getLunarPatternTierFromAngle (Fin (reduceAngle 400))"
proof -
  have "\<lfloor>400 / 360 :: real\<rfloor> = 1"
    by (simp add: floor_eq_iff)
  then have r: "reduceAngle 400 = 40"
    by (simp add: reduceAngle_def)
  show ?thesis
    by (simp add: r getLunarPatternTierFromAngle_def)
qed

lemma fallback_fields:
  "phase (fallback t) = ''Waning Crescent''"
  "illumination (fallback t) = ''45''"
  "message (fallback t) = Text (''Fading signal '' @ emDash @ '' prepare to receive anew.'')"
  "pattern (fallback t) =
     \<lparr>tier = ''Veil'', glyph = glyphVeil, signal = ''Signal fading '' @ emDash @ '' prepare anew.''\<rparr>"
  "time (fallback t) = t"
  "source (fallback t) = ''fallback''"
  by (simp_all add: fallback_def getLunarMessage_def getProp_def lunarMessages_def
      getLunarPatternTierFromAngle_def)

text \<open>
  Claim C2, as the code has it. When a credential is present and the request raises, the
  \<open>catch\<close> block returns the fallback signal itself: phase Waning Crescent with its
  message and pattern, tagged \<open>fallback\<close>, equal to what is returned when no credential is
  configured. The function tags its result \<open>weatherapi\<close> or \<open>fallback\<close>, never \<open>error\<close>.
\<close>

theorem failure_returns_fallback:
  assumes "k \<noteq> []"
  shows "getLunarSignal (Some k) Rejected t0 t1 = fallback t0
       \<and> getLunarSignal (Some k) Rejected t0 t1 = getLunarSignal None res t0 t1
       \<and> source (getLunarSignal (Some k) Rejected t0 t1) = ''fallback''
       \<and> phase (getLunarSignal (Some k) Rejected t0 t1) = ''Waning Crescent''
       \<and> message (getLunarSignal (Some k) Rejected t0 t1)
           = Text (''Fading signal '' @ emDash @ '' prepare to receive anew.'')
       \<and> pattern (getLunarSignal (Some k) Rejected t0 t1)
           = \<lparr>tier = ''Veil'', glyph = glyphVeil,
              signal = ''Signal fading '' @ emDash @ '' prepare anew.''\<rparr>
       \<and> source (getLunarSignal key res t0 t1) \<in> {''fallback'', ''weatherapi''}"
proof -
  have a: "getLunarSignal (Some k) Rejected t0 t1 = fallback t0"
    using assms by (simp add: getLunarSignal_def)
  have b: "getLunarSignal None res t0 t1 = fallback t0"
    by (simp add: getLunarSignal_def)
  have c: "source (getLunarSignal key res t0 t1) \<in> {''fallback'', ''weatherapi''}"
    by (cases res) (simp_all add: getLunarSignal_def fallback_fields Let_def)
  show ?thesis
    by (simp only: a b c fallback_fields simp_thms)
qed

theorem failure_returns_fallback_witness:
  "''secret'' \<noteq> []
   \<and> getLunarSignal (Some ''secret'') Rejected ''t0'' ''t1'' = fallback ''t0''
   \<and> source (getLunarSignal (Some ''secret'') Rejected ''t0'' ''t1'') = ''fallback''"
proof -
  have h: "''secret'' \<noteq> []" by simp
  from failure_returns_fallback [OF h, of "''t0''" "''t1''" Rejected None] h
  show ?thesis
    by blast
qed

theorem error_tag_counterexample:
  "source (getLunarSignal (Some ''secret'') Rejected ''t0'' ''t1'') = ''fallback''
   \<and> source (getLunarSignal (Some ''secret'') Rejected ''t0'' ''t1'') \<noteq> ''error''"
  by (simp add: getLunarSignal_def fallback_fields)

lemma unknown_phase_default:
  assumes "k \<noteq> []" and "p \<noteq> []"
    and "p \<notin> set (map fst angleMap)" and "p \<notin> set objectPrototypeKeys"
  shows "getLunarSignal (Some k) (Json \<lparr>moon_phase = Some p, moon_illumination = ill\<rparr>) t0 t1
       = \<lparr>phase = p, illumination = orElse ill ''0'', message = Text unknownMessage,
          pattern = getLunarPatternTierFromAngle (Fin 0), time = t1, source = ''weatherapi''\<rparr>"
proof -
  have "map_of angleMap p = None"
    using assms(3) by (simp add: map_of_eq_None_iff)
  moreover have "map_of lunarMessages p = None"
    using assms(3) by (simp add: map_of_eq_None_iff angleMap_def lunarMessages_def)
  ultimately show ?thesis
    using assms(1,2,4) by (simp add: getLunarSignal_def getLunarMessage_def getProp_def Let_def)
qed

text \<open>
  Claim C10, at a phase name that a plain object inherits. The name \<open>constructor\<close> is not
  one of the eight phases, yet \<open>angleMap["constructor"]\<close> is the inherited function, which
  \<open>?? 0\<close> keeps and the comparisons turn into NaN: the pattern is the one of the last
  sector, not the one of angle 0, and the message is the inherited function, not the
  text for an unknown phase. The signal is tagged \<open>weatherapi\<close>.
\<close>

theorem inherited_phase_name:
  "getLunarSignal (Some ''secret'')
      (Json \<lparr>moon_phase = Some ''constructor'', moon_illumination = ill\<rparr>) t0 t1
     = \<lparr>phase = ''constructor'', illumination = orElse ill ''0'',
        message = Member ''constructor'',
        pattern = \<lparr>tier = ''Veil'', glyph = glyphVeil,
                   signal = ''Signal fading '' @ emDash @ '' prepare anew.''\<rparr>,
        time = t1, source = ''weatherapi''\<rparr>
   \<and> ''constructor'' \<notin> set (map fst angleMap)
   \<and> getLunarPatternTierFromAngle (Fin 0)
     = \<lparr>tier = ''Veil'', glyph = glyphVeil,
        signal = ''Nothing reveals '' @ emDash @ '' pause, dream.''\<rparr>
   \<and> pattern (getLunarSignal (Some ''secret'')
        (Json \<lparr>moon_phase = Some ''constructor'', moon_illumination = ill\<rparr>) t0 t1)
     \<noteq> getLunarPatternTierFromAngle (Fin 0)
   \<and> message (getLunarSignal (Some ''secret'')
        (Json \<lparr>moon_phase = Some ''constructor'', moon_illumination = ill\<rparr>) t0 t1)
     \<noteq> Text unknownMessage"
  by (simp add: getLunarSignal_def getLunarMessage_def getProp_def angleMap_def
      lunarMessages_def objectPrototypeKeys_def getLunarPatternTierFromAngle_def Let_def)

section \<open>Properties of the report formatter\<close>

lemma decimal_small: "n < 10 \<Longrightarrow> decimal n = [digitChar n]"
  by (simp add: decimal.simps)

lemma decimal_step: "10 \<le> n \<Longrightarrow> decimal n = decimal (n div 10) @ [digitChar (n mod 10)]"
  by (subst decimal.simps) simp

lemma replicate_two: "replicate 2 c = [c, c]"
  by (simp add: numeral_2_eq_2)

text \<open>The examples of the formatting rules that the specification lists.\<close>

lemma formatPrice_examples:
  "formatPrice expo (Val (Fin 0.005)) = ''0.00500000''"
  "formatPrice expo (Val (Fin 0.5)) = ''0.5000''"
  "formatPrice expo (Val (Fin 5)) = ''5.00''"
  by (simp_all add: formatPrice_def toFixed_def decimal_small decimal_step digitChar_def
      replicate_two)

lemma formatNumber_examples:
  "formatNumber expo (Val (Fin 1500000000)) = ''1.50B''"
  "formatNumber expo (Val (Fin 2500)) = ''2.50K''"
  "formatNumber expo (Val NaN) = ''--''"
  by (simp_all add: formatNumber_def js_ge_def toFixed_def decimal_small decimal_step
      digitChar_def)

text \<open>The derived fields of the first variant, read off its definition.\<close>

lemma insight_fields:
  "threshold (generateOracleInsight expo lunar td a rnd c)
     = toFixed expo (js_mul (toNumber (rawProp td price 0)) (Fin 1.05)) 2"
  "echoRim (generateOracleInsight expo lunar td a rnd c)
     = toFixed expo (js_mul (toNumber (rawProp td price 0)) (Fin 1.15)) 2"
  "volMcapRatio (generateOracleInsight expo lunar td a rnd c)
     = (if js_gt (toNumber (rawProp td marketCap 0)) (Fin 0)
        then toFixed expo
          (js_mul (js_div (toNumber (rawProp td volumeUSD 0)) (toNumber (rawProp td marketCap 0)))
            (Fin 100)) 1
        else ''0.0'')"
  "cycleIndex (generateOracleInsight expo lunar td a rnd c)
     = toFixed expo (js_mul (js_div (toNumber (rawProp td rsi 50)) (Fin 100)) (Fin 1.618)) 2"
  by (simp_all add: generateOracleInsight_def Let_def)

text \<open>The derived fields of the second variant.\<close>

lemma insight2_fields:
  "threshold (generateOracleInsight2 expo lunar td a rnd c)
     = formatPrice expo (Val (js_mul (toNumber (rawProp td price 0)) (Fin 1.05)))"
  "echoRim (generateOracleInsight2 expo lunar td a rnd c)
     = formatPrice expo (Val (js_mul (toNumber (rawProp td price 0)) (Fin 1.15)))"
  "volMcapRatio (generateOracleInsight2 expo lunar td a rnd c)
     = (if js_gt (toNumber (rawProp td marketCap 0)) (Fin 0)
        then toFixed expo
          (js_mul (js_div (toNumber (rawProp td volumeUSD 0)) (toNumber (rawProp td marketCap 0)))
            (Fin 100)) 1
        else ''0.0'')"
  "cycleIndex (generateOracleInsight2 expo lunar td a rnd c)
     = toFixed expo (js_mul (js_div (toNumber (rawProp td rsi 50)) (Fin 100)) (Fin 1.618)) 2"
  by (simp_all add: generateOracleInsight2_def Let_def)

lemma insight_text_draws:
  "mysticalQuote (generateOracleInsight expo lunar td a rnd c)
     = mysticalQuote (generateOracleInsight expo lunar td a rnd' c)"
  "oraclePulse (generateOracleInsight expo lunar td a rnd c)
     = oraclePulse (generateOracleInsight expo lunar td a rnd' c)"
  by (simp_all add: generateOracleInsight_def Let_def)

lemma insight2_text_draws:
  "mysticalQuote (generateOracleInsight2 expo lunar td a rnd c)
     = mysticalQuote (generateOracleInsight2 expo lunar td a rnd' c)"
  "oraclePulse (generateOracleInsight2 expo lunar td a rnd c)
     = oraclePulse (generateOracleInsight2 expo lunar td a rnd' c)"
  by (simp_all add: generateOracleInsight2_def Let_def)

text \<open>A market cap that is not above zero gives the literal ratio, whatever the volume.\<close>

lemma ratio_guard:
  "\<not> js_gt (toNumber (rawProp td marketCap 0)) (Fin 0) \<Longrightarrow>
     volMcapRatio (generateOracleInsight expo lunar td a rnd c) = ''0.0''
     \<and> volMcapRatio (generateOracleInsight2 expo lunar td a rnd c) = ''0.0''"
  by (simp add: insight_fields insight2_fields)

text \<open>The randomized fields do follow the draws: \<open>deltaKey\<close> at the draws 0 and 1/2.\<close>

lemma deltaKey_follows_draw:
  "deltaKey (generateOracleInsight expo lunar td a (rnd\<lparr>drawDeltaKey := 0\<rparr>) c) = ''0.50''"
  "deltaKey (generateOracleInsight expo lunar td a (rnd\<lparr>drawDeltaKey := 1 / 2\<rparr>) c) = ''1.50''"
  by (simp_all add: generateOracleInsight_def Let_def toFixed_def decimal_small decimal_step
      digitChar_def)

lemma digitChar_mem: "d < 10 \<Longrightarrow> digitChar d \<in> set ''0123456789''"
  unfolding digitChar_def by (rule nth_mem) simp

lemma decimal_within:
  assumes mem: "\<And>d. d < 10 \<Longrightarrow> digitChar d \<in> D"
  shows "set (decimal n) \<subseteq> D"
proof (induction n rule: decimal.induct)
  case (1 n)
  show ?case
  proof (cases "n < 10")
    case True
    then have "decimal n = [digitChar n]"
      by (subst decimal.simps) simp
    with mem [OF True] show ?thesis
      by simp
  next
    case False
    then have d: "decimal n = decimal (n div 10) @ [digitChar (n mod 10)]"
      by (subst decimal.simps) simp
    have "digitChar (n mod 10) \<in> D"
      by (rule mem) simp
    with 1 [OF False] show ?thesis
      by (simp add: d)
  qed
qed

lemma toFixed_within:
  assumes small: "\<bar>r\<bar> < 10 ^ 21"
    and mem: "\<And>d. d < 10 \<Longrightarrow> digitChar d \<in> D"
    and zero: "CHR ''0'' \<in> D" and minus: "CHR ''-'' \<in> D" and point: "CHR ''.'' \<in> D"
  shows "set (toFixed expo (Fin r) f) \<subseteq> D"
proof -
  define m where "m = decimal (nat \<lfloor>\<bar>r\<bar> * 10 ^ f + 1 / 2\<rfloor>)"
  define z where "z = replicate (f + 1 - length m) (CHR ''0'') @ m"
  define body where "body = (if f \<noteq> 0 then take (length z - f) z @ ''.'' @ drop (length z - f) z else m)"
  have sm: "set m \<subseteq> D"
    unfolding m_def using mem by (rule decimal_within)
  have sz: "set z \<subseteq> D"
    unfolding z_def using sm zero by auto
  have "set (take (length z - f) z) \<subseteq> D" "set (drop (length z - f) z) \<subseteq> D"
    using sz set_take_subset [of "length z - f" z] set_drop_subset [of "length z - f" z]
    by blast+
  then have sb: "set body \<subseteq> D"
    unfolding body_def using sm point by simp
  have "toFixed expo (Fin r) f = (if r < 0 then ''-'' else []) @ body"
    using small by (simp add: toFixed_def Let_def body_def z_def m_def)
  then show ?thesis
    using sb minus by auto
qed

lemma toFixed_decimal_text:
  "\<bar>r\<bar> < 10 ^ 21 \<Longrightarrow> set (toFixed expo (Fin r) f) \<subseteq> set ''-.0123456789''"
proof (rule toFixed_within)
  fix d :: nat
  assume "d < 10"
  then have "digitChar d \<in> set ''0123456789''"
    by (rule digitChar_mem)
  then show "digitChar d \<in> set ''-.0123456789''"
    by simp
qed simp_all

text \<open>
  With a finite volume and a finite market cap the ratio field is a decimal text (below
  the magnitude at which \<open>toFixed\<close> changes to exponent notation), so it is none of
  \<open>NaN\<close>, \<open>Infinity\<close> and \<open>-Infinity\<close>.
\<close>

lemma ratio_of_finite_inputs:
  assumes "volumeUSD t = Val (Fin v)" and "marketCap t = Val (Fin m)"
    and "\<bar>v / m * 100\<bar> < 10 ^ 21"
  shows "set (volMcapRatio (generateOracleInsight expo lunar (Some t) a rnd c))
           \<subseteq> set ''-.0123456789''"
    and "set (volMcapRatio (generateOracleInsight2 expo lunar (Some t) a rnd c))
           \<subseteq> set ''-.0123456789''"
proof -
  let ?r = "if js_gt (Fin m) (Fin 0) then toFixed expo (Fin (v / m * 100)) 1 else ''0.0''"
  have "set ?r \<subseteq> set ''-.0123456789''"
    using toFixed_decimal_text [OF assms(3), of expo 1] by (cases "js_gt (Fin m) (Fin 0)") simp_all
  moreover have "volMcapRatio (generateOracleInsight expo lunar (Some t) a rnd c) = ?r"
    using assms(1,2) by (simp add: insight_fields rawProp_def js_gt_def)
  moreover have "volMcapRatio (generateOracleInsight2 expo lunar (Some t) a rnd c) = ?r"
    using assms(1,2) by (simp add: insight2_fields rawProp_def js_gt_def)
  ultimately show
    "set (volMcapRatio (generateOracleInsight expo lunar (Some t) a rnd c))
       \<subseteq> set ''-.0123456789''"
    "set (volMcapRatio (generateOracleInsight2 expo lunar (Some t) a rnd c))
       \<subseteq> set ''-.0123456789''"
    by simp_all
qed

text \<open>The completion parser on a response with a quoted sentence, without one, and on a failure.\<close>

lemma parseCompletion_examples:
  "parseCompletion (Some ('' '' @ [dq] @ ''Moon rises.'' @ [dq] @ '' Price holds. '')) (q, p)
     = ([dq] @ ''Moon rises.'' @ [dq], ''Price holds.'')"
  "parseCompletion (Some '' Price holds. '') (q, p) = (q, ''Price holds.'')"
  "parseCompletion None (q, p) = (q, p)"
  by (simp_all add: parseCompletion_def trim_def isSpace_def dq_def)

text \<open>
  Claim C4. In the second variant of the report \<open>threshold\<close> and \<open>echoRim\<close> are
  \<open>formatPrice\<close> of the price times 1.05 and times 1.15. The first variant prints both
  with two decimals unconditionally: at the price 0.4 it gives \<open>0.42\<close> and \<open>0.46\<close> where
  the price rule gives \<open>0.4200\<close> and \<open>0.4600\<close>.
\<close>

theorem threshold_rendering:
  "threshold (generateOracleInsight2 expo lunar td a rnd c)
     = formatPrice expo (Val (js_mul (toNumber (rawProp td price 0)) (Fin 1.05)))
   \<and> echoRim (generateOracleInsight2 expo lunar td a rnd c)
     = formatPrice expo (Val (js_mul (toNumber (rawProp td price 0)) (Fin 1.15)))
   \<and> threshold (generateOracleInsight expo lunar (Some (t\<lparr>price := Val (Fin 0.4)\<rparr>)) a rnd c)
     = ''0.42''
   \<and> echoRim (generateOracleInsight expo lunar (Some (t\<lparr>price := Val (Fin 0.4)\<rparr>)) a rnd c)
     = ''0.46''
   \<and> formatPrice expo (Val (js_mul (Fin 0.4) (Fin 1.05))) = ''0.4200''
   \<and> formatPrice expo (Val (js_mul (Fin 0.4) (Fin 1.15))) = ''0.4600''"
  by (simp add: insight_fields insight2_fields rawProp_def toFixed_def formatPrice_def
      decimal_small decimal_step digitChar_def)

text \<open>
  Claim C7, at a volume that is NaN. The market-data reader stores \<open>Number(undefined)\<close>,
  that is NaN, for a volume the service does not report. With a positive market cap the
  guard lets the division run, and the ratio field is the text \<open>NaN\<close>, in both variants.
\<close>

theorem ratio_of_missing_volume:
  "volMcapRatio (generateOracleInsight expo lunar
      (Some (t\<lparr>volumeUSD := Val NaN, marketCap := Val (Fin 1000000)\<rparr>)) a rnd c) = ''NaN''
   \<and> volMcapRatio (generateOracleInsight2 expo lunar
      (Some (t\<lparr>volumeUSD := Val NaN, marketCap := Val (Fin 1000000)\<rparr>)) a rnd c) = ''NaN''"
  by (simp add: insight_fields insight2_fields rawProp_def toFixed_def js_gt_def)

text \<open>
  Claim C8. For a fixed token snapshot, lunar signal, archetype and outcome of the
  completion request, the quote, the narrative, the volume to market cap ratio, the cycle
  index, the threshold and the echo rim are the same whatever \<open>Math.random()\<close> returns, in
  both variants of the report.
\<close>

theorem report_fields_ignore_draws:
  "mysticalQuote (generateOracleInsight expo lunar td a rnd c)
     = mysticalQuote (generateOracleInsight expo lunar td a rnd' c)
   \<and> oraclePulse (generateOracleInsight expo lunar td a rnd c)
     = oraclePulse (generateOracleInsight expo lunar td a rnd' c)
   \<and> volMcapRatio (generateOracleInsight expo lunar td a rnd c)
     = volMcapRatio (generateOracleInsight expo lunar td a rnd' c)
   \<and> cycleIndex (generateOracleInsight expo lunar td a rnd c)
     = cycleIndex (generateOracleInsight expo lunar td a rnd' c)
   \<and> threshold (generateOracleInsight expo lunar td a rnd c)
     = threshold (generateOracleInsight expo lunar td a rnd' c)
   \<and> echoRim (generateOracleInsight expo lunar td a rnd c)
     = echoRim (generateOracleInsight expo lunar td a rnd' c)
   \<and> mysticalQuote (generateOracleInsight2 expo lunar td a rnd c)
     = mysticalQuote (generateOracleInsight2 expo lunar td a rnd' c)
   \<and> oraclePulse (generateOracleInsight2 expo lunar td a rnd c)
     = oraclePulse (generateOracleInsight2 expo lunar td a rnd' c)
   \<and> volMcapRatio (generateOracleInsight2 expo lunar td a rnd c)
     = volMcapRatio (generateOracleInsight2 expo lunar td a rnd' c)
   \<and> cycleIndex (generateOracleInsight2 expo lunar td a rnd c)
     = cycleIndex (generateOracleInsight2 expo lunar td a rnd' c)
   \<and> threshold (generateOracleInsight2 expo lunar td a rnd c)
     = threshold (generateOracleInsight2 expo lunar td a rnd' c)
   \<and> echoRim (generateOracleInsight2 expo lunar td a rnd c)
     = echoRim (generateOracleInsight2 expo lunar td a rnd' c)"
  using insight_text_draws [of expo lunar td a rnd c rnd']
    insight2_text_draws [of expo lunar td a rnd c rnd']
  by (simp add: insight_fields insight2_fields)

end
